theory Spec2Isabelle
  imports Main "HOL-Library.Word"
begin

section \<open>The photo catalog of app.js\<close>

text \<open>
  The program is a menu loop over two JSON documents, \<^verbatim>\<open>photos.json\<close> and
  \<^verbatim>\<open>albums.json\<close>. Each feature prompts for its inputs, loads the documents it
  needs, scans them linearly, and (for the two mutating features) writes the whole
  photo collection back.

  Scope of the model.
  \<^item> A document that loads is a JSON array whose elements are objects with the attributes
    used by the program, or \<^verbatim>\<open>null\<close>. An attribute that is absent is \<open>None\<close>;
    every other key of an object is kept in the field \<open>other\<close>. An attribute that is
    present has the type the program expects (text, a number, a list of texts or of
    numbers); only the photo identifier is an arbitrary JSON scalar or object, because
    the program compares it with \<^verbatim>\<open>===\<close> and the comparison never coerces.
  \<^item> A string is a list of UTF-16 code units, as in JavaScript. \<^verbatim>\<open>trim\<close> and the
    white space skipped by \<^verbatim>\<open>parseInt\<close> are those of the language on all of them.
    \<^verbatim>\<open>toLowerCase\<close> follows the Unicode tables of the platform, which are not part of
    the program: it is a component of the environment, and every property holds
    whatever it is.
  \<^item> The numbers of the documents are integers. \<^verbatim>\<open>parseInt\<close> rounds to the nearest
    double as the language does.
  \<^item> The user's answers are a finite list of lines; a prompt issued when the list is
    exhausted never returns (outcome \<open>Blocked\<close>).
  \<^item> Everything printed, asked, read or written is appended to a trace, so that the
    order of the effects is part of the result.
\<close>

subsection \<open>Strings\<close>

type_synonym jschar = "16 word"

type_synonym jsstring = "jschar list"

text \<open>The text of a string literal of the source (its characters are ASCII).\<close>

definition js :: "string \<Rightarrow> jsstring" where
  "js s = map (\<lambda>c. of_nat (of_char c)) s"

text \<open>
  \<^verbatim>\<open>WhiteSpace\<close> and \<^verbatim>\<open>LineTerminator\<close> of the language: tab, line feed, vertical
  tab, form feed, carriage return, space, no-break space, the space separators of
  Unicode, line and paragraph separator, and the byte order mark.
\<close>

definition isWhiteSpace :: "jschar \<Rightarrow> bool" where
  "isWhiteSpace c =
     (c \<in> set [0x0009, 0x000A, 0x000B, 0x000C, 0x000D, 0x0020, 0x00A0, 0x1680,
                0x2000, 0x2001, 0x2002, 0x2003, 0x2004, 0x2005, 0x2006, 0x2007,
                0x2008, 0x2009, 0x200A, 0x2028, 0x2029, 0x202F, 0x205F, 0x3000,
                0xFEFF])"

definition isDigit :: "jschar \<Rightarrow> bool" where
  "isDigit c = (0x30 \<le> c \<and> c \<le> 0x39)"

definition trim :: "jsstring \<Rightarrow> jsstring" where
  "trim s = rev (dropWhile isWhiteSpace (rev (dropWhile isWhiteSpace s)))"

subsection \<open>Numbers\<close>

text \<open>The values of \<^verbatim>\<open>parseInt\<close>: not a number, an integer, or an infinity.\<close>

datatype number = NaN | Num int | PosInfinity | NegInfinity

definition digitsValue :: "jsstring \<Rightarrow> int" where
  "digitsValue z = foldl (\<lambda>acc c. 10 * acc + (uint c - 48)) 0 z"

function bitLength :: "int \<Rightarrow> nat" where
  "bitLength n = (if n \<le> 0 then 0 else Suc (bitLength (n div 2)))"
  by pat_completeness auto
termination
  by (relation "measure nat") auto

text \<open>
  The Number value for a natural number: the nearest double, ties to the even
  significand of 53 bits; \<open>None\<close> is the overflow to \<^verbatim>\<open>Infinity\<close>.
\<close>

definition toDouble :: "int \<Rightarrow> int option" where
  "toDouble m =
     (if m < 2 ^ 53 then Some m
      else
        (let e = bitLength m - 53;
             q = m div 2 ^ e;
             r = m mod 2 ^ e;
             q' = (if 2 * r > 2 ^ e \<or> (2 * r = 2 ^ e \<and> odd q) then q + 1 else q);
             v = q' * 2 ^ e
         in if v \<ge> 2 ^ 1024 then None else Some v))"

text \<open>
  \<^verbatim>\<open>parseInt(s, 10)\<close>: skip leading white space, take an optional sign, then the
  longest run of decimal digits; without a digit there the result is \<^verbatim>\<open>NaN\<close>. What
  follows the digits is ignored. (Beyond twenty significant digits the language lets an
  implementation approximate; the digits are all kept here.)
\<close>

definition parseInt :: "jsstring \<Rightarrow> number" where
  "parseInt s =
     (let s1 = dropWhile isWhiteSpace s;
          neg = (s1 \<noteq> [] \<and> hd s1 = 0x2D);
          s2 = (if s1 \<noteq> [] \<and> (hd s1 = 0x2D \<or> hd s1 = 0x2B) then tl s1 else s1);
          z = takeWhile isDigit s2
      in if z = [] then NaN
         else
           (case toDouble (digitsValue z) of
              None \<Rightarrow> if neg then NegInfinity else PosInfinity
            | Some m \<Rightarrow> Num (if neg then - m else m)))"

text \<open>\<^verbatim>\<open>String(n)\<close> for an integer (of less than 22 digits).\<close>

fun showNat :: "nat \<Rightarrow> jsstring" where
  "showNat n =
     (if n < 10 then [of_nat (48 + n)]
      else showNat (n div 10) @ [of_nat (48 + n mod 10)])"

definition showInt :: "int \<Rightarrow> jsstring" where
  "showInt i = (if i < 0 then 0x2D # showNat (nat (- i)) else showNat (nat i))"

subsection \<open>Data model\<close>

datatype json = JNull | JBool bool | JNum int | JStr jsstring | JObj "(jsstring \<times> json) list"

datatype resolution_value = ResText jsstring | ResArray "int list"

record photo =
  photo_id :: "json option"
  filename :: "jsstring option"
  title :: "jsstring option"
  description :: "jsstring option"
  date :: "int option"
  resolution :: "resolution_value option"
  albums :: "int list option"
  tags :: "jsstring list option"
  other :: "(jsstring \<times> json) list"

record album =
  album_id :: "int option"
  album_name :: "jsstring option"

text \<open>An element of a loaded array: \<^verbatim>\<open>null\<close>, or an object.\<close>

datatype 'a elem = Null | Obj 'a

text \<open>The first argument of \<^verbatim>\<open>findPhotoById\<close>: an array, or any other value.\<close>

datatype photos_value = NotArray json | PhotoArray "photo elem list"

text \<open>
  The only error the features can raise by themselves is the \<^verbatim>\<open>TypeError\<close> of
  reading a property of \<^verbatim>\<open>null\<close>; it carries the name of the property. The text
  of its message is the engine's.
\<close>

datatype js_error = TypeError string

datatype event =
    Ask jsstring
  | Print jsstring
  | PrintUnexpected js_error
  | ReadFile jsstring
  | WriteFile jsstring "photo elem list"

text \<open>
  The environment of a run. A file is \<open>Inr\<close> its parsed content, or \<open>Inl\<close> the message
  of the error that reading or parsing it raises. \<open>writeError\<close> is the message of the
  error that writing raises, if writing fails. \<open>localeDate\<close> is the platform's
  \<^verbatim>\<open>toLocaleDateString('en-US', {year, month: 'long', day})\<close> on a valid time value,
  and \<open>toLowerCase\<close> its \<^verbatim>\<open>String.prototype.toLowerCase\<close>.
\<close>

record world =
  photosFile :: "jsstring + photo elem list"
  albumsFile :: "jsstring + album elem list"
  writeError :: "jsstring option"
  localeDate :: "int \<Rightarrow> jsstring"
  toLowerCase :: "jsstring \<Rightarrow> jsstring"
  inputs :: "jsstring list"
  trace :: "event list"

datatype outcome = Done | Threw js_error | Blocked

definition PHOTOS_FILE :: jsstring where
  "PHOTOS_FILE = js ''photos.json''"

definition ALBUMS_FILE :: jsstring where
  "ALBUMS_FILE = js ''albums.json''"

subsection \<open>Console, prompt and storage access\<close>

definition console_log :: "jsstring \<Rightarrow> world \<Rightarrow> world" where
  "console_log s w = w\<lparr>trace := trace w @ [Print s]\<rparr>"

text \<open>\<^verbatim>\<open>prompt(q)\<close>: shows \<open>q\<close> and returns the next line the user types.\<close>

definition prompt :: "jsstring \<Rightarrow> world \<Rightarrow> jsstring option \<times> world" where
  "prompt q w =
     (case inputs w of
        [] \<Rightarrow> (None, w\<lparr>trace := trace w @ [Ask q]\<rparr>)
      | l # ls \<Rightarrow> (Some l, w\<lparr>inputs := ls, trace := trace w @ [Ask q]\<rparr>))"

text \<open>
  \<^verbatim>\<open>readJson(filePath)\<close>: the parsed document, or \<^verbatim>\<open>null\<close> (\<open>None\<close>) after a
  diagnostic when reading or parsing raises. The two documents have different element
  types, so the accessor of the file's content comes with its path.
\<close>

definition readJson :: "jsstring \<Rightarrow> (world \<Rightarrow> jsstring + 'a) \<Rightarrow> world \<Rightarrow> 'a option \<times> world" where
  "readJson filePath content w =
     (let w1 = w\<lparr>trace := trace w @ [ReadFile filePath]\<rparr>
      in case content w of
           Inr v \<Rightarrow> (Some v, w1)
         | Inl msg \<Rightarrow>
             (None, console_log (js ''Error reading file '' @ filePath @ js '' - '' @ msg) w1))"

text \<open>
  \<^verbatim>\<open>writeJson(filePath, data)\<close>: replaces the document, or prints a diagnostic when
  writing raises; it returns normally in both cases. The program writes the photo
  collection only. A failed write is taken to leave the document as it was.
\<close>

definition writeJson :: "jsstring \<Rightarrow> photo elem list \<Rightarrow> world \<Rightarrow> world" where
  "writeJson filePath data w =
     (let w1 = w\<lparr>trace := trace w @ [WriteFile filePath data]\<rparr>
      in case writeError w of
           None \<Rightarrow> w1\<lparr>photosFile := Inr data\<rparr>
         | Some msg \<Rightarrow> console_log (js ''Error writing file '' @ filePath @ js '' - '' @ msg) w1)"

subsection \<open>Catalog lookup\<close>

text \<open>
  \<^verbatim>\<open>photos[i].id === id\<close> on an object: true only when the attribute is the number
  \<open>id\<close> itself. An identifier of the documents is finite, so it is never an infinity.
\<close>

definition idEquals :: "json option \<Rightarrow> number \<Rightarrow> bool" where
  "idEquals v n = (case n of Num k \<Rightarrow> v = Some (JNum k) | _ \<Rightarrow> False)"

text \<open>
  The loop of \<^verbatim>\<open>findPhotoById\<close>: \<^verbatim>\<open>photos[i].id\<close> raises on a \<^verbatim>\<open>null\<close> element.
\<close>

fun scanById :: "photo elem list \<Rightarrow> number \<Rightarrow> js_error + photo option" where
  "scanById [] n = Inr None"
| "scanById (Null # ps) n = Inl (TypeError ''id'')"
| "scanById (Obj p # ps) n =
     (if idEquals (photo_id p) n then Inr (Some p) else scanById ps n)"

definition findPhotoById :: "photos_value \<Rightarrow> number \<Rightarrow> js_error + photo option" where
  "findPhotoById photos n =
     (case photos of
        NotArray v \<Rightarrow> Inr None
      | PhotoArray ps \<Rightarrow> scanById ps n)"

text \<open>
  The index loop written out in \<^verbatim>\<open>updatePhotoDetailsFeature\<close> and in
  \<^verbatim>\<open>tagPhotoFeature\<close>: the first \<open>i\<close> with \<^verbatim>\<open>photos[i].id === id\<close>, counted
  from \<open>i\<close>; \<open>None\<close> is the \<open>-1\<close> of the source.
\<close>

fun indexLoop :: "photo elem list \<Rightarrow> number \<Rightarrow> nat \<Rightarrow> js_error + nat option" where
  "indexLoop [] n i = Inr None"
| "indexLoop (Null # ps) n i = Inl (TypeError ''id'')"
| "indexLoop (Obj p # ps) n i =
     (if idEquals (photo_id p) n then Inr (Some i) else indexLoop ps n (Suc i))"

text \<open>
  The album loop of \<^verbatim>\<open>albumPhotoListFeature\<close>:
  \<^verbatim>\<open>albums[i].name && albums[i].name.toLowerCase() === albumNameInput.trim().toLowerCase()\<close>.
\<close>

definition nameMatches :: "(jsstring \<Rightarrow> jsstring) \<Rightarrow> album \<Rightarrow> jsstring \<Rightarrow> bool" where
  "nameMatches lower a albumNameInput =
     (case album_name a of
        None \<Rightarrow> False
      | Some nm \<Rightarrow> nm \<noteq> [] \<and> lower nm = lower (trim albumNameInput))"

fun albumLoop ::
  "(jsstring \<Rightarrow> jsstring) \<Rightarrow> album elem list \<Rightarrow> jsstring \<Rightarrow> js_error + album option" where
  "albumLoop lower [] albumNameInput = Inr None"
| "albumLoop lower (Null # as) albumNameInput = Inl (TypeError ''name'')"
| "albumLoop lower (Obj a # as) albumNameInput =
     (if nameMatches lower a albumNameInput then Inr (Some a)
      else albumLoop lower as albumNameInput)"

subsection \<open>Field formatting\<close>

text \<open>
  \<^verbatim>\<open>formatDate\<close>: a time value beyond \<open>8.64e15\<close> milliseconds from the epoch is
  not a date.
\<close>

definition formatDate :: "(int \<Rightarrow> jsstring) \<Rightarrow> int option \<Rightarrow> jsstring" where
  "formatDate locale timestamp =
     (case timestamp of
        None \<Rightarrow> js ''Unknown''
      | Some t \<Rightarrow>
          if \<bar>t\<bar> > 8640000000000000 then js ''Invalid date'' else locale t)"

text \<open>
  The joining loops: \<^verbatim>\<open>str += xs[i]; if (i < xs.length - 1) str += sep\<close>.
\<close>

fun joinLoop :: "jsstring \<Rightarrow> jsstring list \<Rightarrow> jsstring" where
  "joinLoop sep [] = []"
| "joinLoop sep [x] = x"
| "joinLoop sep (x # y # ys) = x @ sep @ joinLoop sep (y # ys)"

text \<open>A value that may be \<^verbatim>\<open>undefined\<close>, appended to a string.\<close>

definition orUndefined :: "jsstring option \<Rightarrow> jsstring" where
  "orUndefined v = (case v of None \<Rightarrow> js ''undefined'' | Some s \<Rightarrow> s)"

text \<open>The empty string in place of a text attribute that is absent.\<close>

definition orEmpty :: "jsstring option \<Rightarrow> jsstring" where
  "orEmpty v = (case v of None \<Rightarrow> [] | Some s \<Rightarrow> s)"

text \<open>The empty array in place of a list attribute that is absent.\<close>

definition orNil :: "'a list option \<Rightarrow> 'a list" where
  "orNil v = (case v of None \<Rightarrow> [] | Some xs \<Rightarrow> xs)"

text \<open>\<^verbatim>\<open>None\<close> in place of a joined string that is empty.\<close>

definition orNone :: "jsstring \<Rightarrow> jsstring" where
  "orNone s = (if s = [] then js ''None'' else s)"

text \<open>The inner loop of \<^verbatim>\<open>displayPhoto\<close>: the name of the first album with this id.\<close>

fun albumNameOf :: "album elem list \<Rightarrow> int \<Rightarrow> js_error + jsstring option option" where
  "albumNameOf [] aId = Inr None"
| "albumNameOf (Null # as) aId = Inl (TypeError ''id'')"
| "albumNameOf (Obj a # as) aId =
     (if album_id a = Some aId then Inr (Some (album_name a)) else albumNameOf as aId)"

fun albumNames :: "int list \<Rightarrow> album elem list \<Rightarrow> js_error + jsstring option list" where
  "albumNames [] as = Inr []"
| "albumNames (aId # ids) as =
     (case albumNameOf as aId of
        Inl e \<Rightarrow> Inl e
      | Inr None \<Rightarrow> albumNames ids as
      | Inr (Some nm) \<Rightarrow>
          (case albumNames ids as of Inl e \<Rightarrow> Inl e | Inr nms \<Rightarrow> Inr (nm # nms)))"

text \<open>The resolution column of the album listing.\<close>

definition stringAt :: "int list \<Rightarrow> nat \<Rightarrow> jsstring" where
  "stringAt xs i = (if i < length xs then showInt (xs ! i) else js ''undefined'')"

definition formatResolution :: "resolution_value option \<Rightarrow> jsstring" where
  "formatResolution r =
     (case r of
        Some (ResArray xs) \<Rightarrow> stringAt xs 0 @ js ''x'' @ stringAt xs 1
      | Some (ResText s) \<Rightarrow> s
      | None \<Rightarrow> [])"

subsection \<open>Catalog operations\<close>

definition displayPhoto :: "photo option \<Rightarrow> album elem list \<Rightarrow> world \<Rightarrow> outcome \<times> world" where
  "displayPhoto photo as w =
     (case photo of
        None \<Rightarrow> (Done, console_log (js ''No photo to display'') w)
      | Some p \<Rightarrow>
          (let w1 = console_log (js ''Filename: '' @ orEmpty (filename p)) w;
               w2 = console_log (js ''Title: '' @ orEmpty (title p)) w1;
               w3 = console_log (js ''Date: '' @ formatDate (localeDate w) (date p)) w2
           in case albumNames (orNil (albums p)) as of
                Inl e \<Rightarrow> (Threw e, w3)
              | Inr nms \<Rightarrow>
                  (let albumStr = joinLoop (js '', '') (map orUndefined nms);
                       w4 = console_log (js ''Albums: '' @ orNone albumStr) w3;
                       tagStr = joinLoop (js '', '') (orNil (tags p))
                   in (Done, console_log (js ''Tags: '' @ orNone tagStr) w4))))"

text \<open>Feature 1, Find Photo. \<^verbatim>\<open>isNaN(id)\<close> is false for an infinity.\<close>

definition findPhotoFeature :: "world \<Rightarrow> outcome \<times> world" where
  "findPhotoFeature w =
     (case prompt (js ''Photo ID? '') w of
        (None, w1) \<Rightarrow> (Blocked, w1)
      | (Some idInput, w1) \<Rightarrow>
     (let n = parseInt idInput in
      if n = NaN then (Done, console_log (js ''Invalid ID'') w1)
      else
     (case readJson PHOTOS_FILE photosFile w1 of (photos, w2) \<Rightarrow>
     (case readJson ALBUMS_FILE albumsFile w2 of (albums', w3) \<Rightarrow>
     (case photos of
        None \<Rightarrow> (Done, console_log (js ''Could not load data files'') w3)
      | Some ps \<Rightarrow>
     (case albums' of
        None \<Rightarrow> (Done, console_log (js ''Could not load data files'') w3)
      | Some as \<Rightarrow>
     (case findPhotoById (PhotoArray ps) n of
        Inl e \<Rightarrow> (Threw e, w3)
      | Inr None \<Rightarrow> (Done, console_log (js ''Photo not found'') w3)
      | Inr (Some p) \<Rightarrow> displayPhoto (Some p) as w3)))))))"

text \<open>
  Feature 2, Update Photo Details. \<^verbatim>\<open>photo\<close> aliases \<^verbatim>\<open>photos[index]\<close>, so the
  assignments to its fields are the update of that element.
\<close>

definition updatePhotoDetailsFeature :: "world \<Rightarrow> outcome \<times> world" where
  "updatePhotoDetailsFeature w =
     (case prompt (js ''Photo ID? '') w of
        (None, w1) \<Rightarrow> (Blocked, w1)
      | (Some idInput, w1) \<Rightarrow>
     (let n = parseInt idInput in
      if n = NaN then (Done, console_log (js ''Invalid ID'') w1)
      else
     (case readJson PHOTOS_FILE photosFile w1 of
        (None, w2) \<Rightarrow> (Done, console_log (js ''Could not load photos'') w2)
      | (Some photos, w2) \<Rightarrow>
     (case indexLoop photos n 0 of
        Inl e \<Rightarrow> (Threw e, w2)
      | Inr None \<Rightarrow> (Done, console_log (js ''Photo not found'') w2)
      | Inr (Some index) \<Rightarrow>
     (let w3 = console_log (js ''Press enter to reuse existing value.'') w2 in
      case photos ! index of
        Null \<Rightarrow> (Threw (TypeError ''title''), w3)
      | Obj photo \<Rightarrow>
     (case prompt (js ''Enter value for title ['' @ orEmpty (title photo) @ js '']: '') w3 of
        (None, w4) \<Rightarrow> (Blocked, w4)
      | (Some newTitle, w4) \<Rightarrow>
     (let photo1 = (if trim newTitle \<noteq> [] then photo\<lparr>title := Some newTitle\<rparr> else photo) in
      case prompt (js ''Enter value for description ['' @ orEmpty (description photo1) @ js '']: '') w4 of
        (None, w5) \<Rightarrow> (Blocked, w5)
      | (Some newDesc, w5) \<Rightarrow>
     (let photo2 = (if trim newDesc \<noteq> [] then photo1\<lparr>description := Some newDesc\<rparr> else photo1);
          w6 = writeJson PHOTOS_FILE (photos[index := Obj photo2]) w5
      in (Done, console_log (js ''Photo updated'') w6)))))))))"

text \<open>Feature 3, Album Photo List.\<close>

definition belongs :: "photo \<Rightarrow> album \<Rightarrow> bool" where
  "belongs p foundAlbum = list_ex (\<lambda>x. Some x = album_id foundAlbum) (orNil (albums p))"

definition row :: "photo \<Rightarrow> jsstring" where
  "row p =
     orUndefined (filename p) @ js '','' @ formatResolution (resolution p) @ js '','' @
     joinLoop (js '':'') (orNil (tags p))"

fun listLoop :: "photo elem list \<Rightarrow> album \<Rightarrow> world \<Rightarrow> outcome \<times> world" where
  "listLoop [] foundAlbum w = (Done, w)"
| "listLoop (Null # ps) foundAlbum w = (Threw (TypeError ''albums''), w)"
| "listLoop (Obj p # ps) foundAlbum w =
     (if belongs p foundAlbum then listLoop ps foundAlbum (console_log (row p) w)
      else listLoop ps foundAlbum w)"

definition albumPhotoListFeature :: "world \<Rightarrow> outcome \<times> world" where
  "albumPhotoListFeature w =
     (case prompt (js ''What is the name of the album? '') w of
        (None, w1) \<Rightarrow> (Blocked, w1)
      | (Some albumNameInput, w1) \<Rightarrow>
     (if trim albumNameInput = [] then (Done, console_log (js ''Album name required'') w1)
      else
     (case readJson ALBUMS_FILE albumsFile w1 of (albums', w2) \<Rightarrow>
     (case readJson PHOTOS_FILE photosFile w2 of (photos, w3) \<Rightarrow>
     (case albums' of
        None \<Rightarrow> (Done, console_log (js ''Could not load data'') w3)
      | Some as \<Rightarrow>
     (case photos of
        None \<Rightarrow> (Done, console_log (js ''Could not load data'') w3)
      | Some ps \<Rightarrow>
     (case albumLoop (toLowerCase w) as albumNameInput of
        Inl e \<Rightarrow> (Threw e, w3)
      | Inr None \<Rightarrow> (Done, console_log (js ''Album not found'') w3)
      | Inr (Some foundAlbum) \<Rightarrow>
          listLoop ps foundAlbum (console_log (js ''filename,resolution,tags'') w3))))))))"

text \<open>
  Feature 4, Tag Photo. The duplicate loop:
  \<^verbatim>\<open>String(tags[i]).toLowerCase() === tagToAdd.toLowerCase()\<close>.
\<close>

definition isDuplicate :: "(jsstring \<Rightarrow> jsstring) \<Rightarrow> jsstring list \<Rightarrow> jsstring \<Rightarrow> bool" where
  "isDuplicate lower ts tagToAdd = list_ex (\<lambda>t. lower t = lower tagToAdd) ts"

definition tagPhotoFeature :: "world \<Rightarrow> outcome \<times> world" where
  "tagPhotoFeature w =
     (case prompt (js ''What photo ID to tag? '') w of
        (None, w1) \<Rightarrow> (Blocked, w1)
      | (Some idInput, w1) \<Rightarrow>
     (let n = parseInt idInput in
      if n = NaN then (Done, console_log (js ''Invalid ID'') w1)
      else
     (case prompt (js ''What tag to add (single tag)? '') w1 of
        (None, w2) \<Rightarrow> (Blocked, w2)
      | (Some tagInput, w2) \<Rightarrow>
     (if trim tagInput = [] then (Done, console_log (js ''Tag cannot be empty'') w2)
      else
     (let tagToAdd = trim tagInput in
      case readJson PHOTOS_FILE photosFile w2 of
        (None, w3) \<Rightarrow> (Done, console_log (js ''Could not load photos'') w3)
      | (Some photos, w3) \<Rightarrow>
     (case indexLoop photos n 0 of
        Inl e \<Rightarrow> (Threw e, w3)
      | Inr None \<Rightarrow> (Done, console_log (js ''Photo not found'') w3)
      | Inr (Some index) \<Rightarrow>
     (case photos ! index of
        Null \<Rightarrow> (Threw (TypeError ''tags''), w3)
      | Obj photo \<Rightarrow>
     (let ts = orNil (tags photo) in
      if isDuplicate (toLowerCase w) ts tagToAdd
      then (Done, console_log (js ''Tag already exists, no changes made'') w3)
      else
        (let w4 = writeJson PHOTOS_FILE (photos[index := Obj (photo\<lparr>tags := Some (ts @ [tagToAdd])\<rparr>)]) w3
         in (Done, console_log (js ''Updated!'') w4))))))))))"

subsection \<open>The menu loop\<close>

text \<open>No operation gives the user's answers back: the loop consumes them.\<close>

lemma inputs_console_log [simp]: "inputs (console_log s w) = inputs w"
  by (simp add: console_log_def)

lemma inputs_prompt: "prompt q w = (r, w') \<Longrightarrow> length (inputs w') \<le> length (inputs w)"
  by (auto simp: prompt_def split: list.splits)

lemma inputs_prompt_Some: "prompt q w = (Some l, w') \<Longrightarrow> length (inputs w') < length (inputs w)"
  by (auto simp: prompt_def split: list.splits)

lemma inputs_readJson: "readJson f c w = (r, w') \<Longrightarrow> inputs w' = inputs w"
  by (auto simp: readJson_def Let_def split: sum.splits)

lemma inputs_writeJson [simp]: "inputs (writeJson f d w) = inputs w"
  by (simp add: writeJson_def Let_def split: option.splits)

lemma inputs_displayPhoto: "displayPhoto p as w = (r, w') \<Longrightarrow> inputs w' = inputs w"
  by (auto simp: displayPhoto_def Let_def split: option.splits sum.splits)

lemma inputs_listLoop: "listLoop ps a w = (r, w') \<Longrightarrow> inputs w' = inputs w"
  by (induction ps a w rule: listLoop.induct) (auto split: if_splits)

lemma inputs_findPhotoFeature:
  "findPhotoFeature w = (r, w') \<Longrightarrow> length (inputs w') \<le> length (inputs w)"
  unfolding findPhotoFeature_def Let_def
  by (auto split: prod.splits option.splits sum.splits if_splits
      dest!: inputs_prompt inputs_readJson inputs_displayPhoto)

lemma inputs_updatePhotoDetailsFeature:
  "updatePhotoDetailsFeature w = (r, w') \<Longrightarrow> length (inputs w') \<le> length (inputs w)"
  unfolding updatePhotoDetailsFeature_def Let_def
  by (auto split: prod.splits option.splits sum.splits elem.splits if_splits
      dest!: inputs_prompt inputs_readJson)

lemma inputs_albumPhotoListFeature:
  "albumPhotoListFeature w = (r, w') \<Longrightarrow> length (inputs w') \<le> length (inputs w)"
  unfolding albumPhotoListFeature_def
  by (auto split: prod.splits option.splits sum.splits if_splits
      dest!: inputs_prompt inputs_readJson inputs_listLoop)

lemma inputs_tagPhotoFeature:
  "tagPhotoFeature w = (r, w') \<Longrightarrow> length (inputs w') \<le> length (inputs w)"
  unfolding tagPhotoFeature_def Let_def
  by (auto split: prod.splits option.splits sum.splits elem.splits if_splits
      dest!: inputs_prompt inputs_readJson)

text \<open>The menu printed at the head of every iteration of the loop of \<^verbatim>\<open>main\<close>.\<close>

definition menu :: "world \<Rightarrow> world" where
  "menu w =
     console_log (js ''5. Exit'')
       (console_log (js ''4. Tag Photo'')
         (console_log (js ''3. Album Photo List'')
           (console_log (js ''2. Update Photo Details'')
             (console_log (js ''1. Find Photo'')
               (console_log [] w)))))"

lemma inputs_menu [simp]: "inputs (menu w) = inputs w"
  by (simp add: menu_def)

lemma inputs_feature_less:
  assumes "length (inputs w1) < n"
  shows "(r, w2) = findPhotoFeature w1 \<Longrightarrow> length (inputs w2) < n"
    and "(r, w2) = updatePhotoDetailsFeature w1 \<Longrightarrow> length (inputs w2) < n"
    and "(r, w2) = albumPhotoListFeature w1 \<Longrightarrow> length (inputs w2) < n"
    and "(r, w2) = tagPhotoFeature w1 \<Longrightarrow> length (inputs w2) < n"
  using assms inputs_findPhotoFeature [of w1 r w2] inputs_updatePhotoDetailsFeature [of w1 r w2]
    inputs_albumPhotoListFeature [of w1 r w2] inputs_tagPhotoFeature [of w1 r w2]
  by auto

text \<open>
  The \<^verbatim>\<open>while (true)\<close> loop of \<^verbatim>\<open>main\<close>. A feature that raises leaves the loop:
  the \<^verbatim>\<open>try\<close> block encloses the loop, not its body. Every iteration reads a line,
  so the loop ends on a finite list of answers.
\<close>

function main_loop :: "world \<Rightarrow> outcome \<times> world" where
  "main_loop w =
     (case prompt (js ''Your selection> '') (menu w) of
        (None, w1) \<Rightarrow> (Blocked, w1)
      | (Some line, w1) \<Rightarrow>
          (let selection = trim line in
           if selection = js ''1'' then
             (case findPhotoFeature w1 of (Done, w2) \<Rightarrow> main_loop w2 | (r, w2) \<Rightarrow> (r, w2))
           else if selection = js ''2'' then
             (case updatePhotoDetailsFeature w1 of (Done, w2) \<Rightarrow> main_loop w2 | (r, w2) \<Rightarrow> (r, w2))
           else if selection = js ''3'' then
             (case albumPhotoListFeature w1 of (Done, w2) \<Rightarrow> main_loop w2 | (r, w2) \<Rightarrow> (r, w2))
           else if selection = js ''4'' then
             (case tagPhotoFeature w1 of (Done, w2) \<Rightarrow> main_loop w2 | (r, w2) \<Rightarrow> (r, w2))
           else if selection = js ''5'' then (Done, console_log (js ''Goodbye'') w1)
           else main_loop (console_log (js ''Invalid selection'') w1)))"
  by pat_completeness auto
termination
  by (relation "measure (\<lambda>w. length (inputs w))")
    (auto dest!: inputs_prompt_Some [OF sym] intro: inputs_feature_less)

declare main_loop.simps [simp del]


subsection \<open>Observing a trace\<close>

text \<open>The collections handed to \<^verbatim>\<open>writeJson\<close>, in the order of the writes.\<close>

fun written :: "event list \<Rightarrow> photo elem list list" where
  "written [] = []"
| "written (WriteFile f d # evs) = d # written evs"
| "written (ev # evs) = written evs"

text \<open>The errors reported by the \<^verbatim>\<open>catch\<close> of \<^verbatim>\<open>main\<close>, in order.\<close>

fun reported :: "event list \<Rightarrow> js_error list" where
  "reported [] = []"
| "reported (PrintUnexpected e # evs) = e # reported evs"
| "reported (ev # evs) = reported evs"

subsection \<open>A lowercasing for the examples\<close>

text \<open>
  What \<^verbatim>\<open>String.prototype.toLowerCase\<close> does to a text whose code units are all
  below \<open>0x100\<close>: the letters \<^verbatim>\<open>A\<close> to \<^verbatim>\<open>Z\<close> and the capital letters of the
  Latin-1 supplement move up by \<open>0x20\<close>. The examples run on such texts in an
  environment that has it as \<open>toLowerCase\<close>.
\<close>

definition latin1LowerCase :: "jsstring \<Rightarrow> jsstring" where
  "latin1LowerCase s =
     map (\<lambda>c. if (0x41 \<le> c \<and> c \<le> 0x5A) \<or> (0xC0 \<le> c \<and> c \<le> 0xDE \<and> c \<noteq> 0xD7)
               then c + 0x20 else c) s"

section \<open>Properties\<close>

subsection \<open>Literals\<close>

lemma js_eq_iff [simp]: "js a = js b \<longleftrightarrow> a = b"
proof -
  have "inj (\<lambda>c. (of_nat (of_char c) :: 16 word))"
  proof (rule injI)
    fix c d :: char
    assume "(of_nat (of_char c) :: 16 word) = of_nat (of_char d)"
    then have "unat (of_nat (of_char c) :: 16 word) = unat (of_nat (of_char d) :: 16 word)"
      by simp
    moreover have "(of_char x :: nat) mod 65536 = of_char x" for x
      by (rule mod_less, rule order_less_trans [OF nat_of_char_less_256]) simp
    ultimately have "(of_char c :: nat) = of_char d"
      by (simp add: unat_of_nat)
    then show "c = d" by simp
  qed
  then show ?thesis
    by (simp add: js_def inj_map_eq_map)
qed

lemma js_Nil_iff [simp]: "js s = [] \<longleftrightarrow> s = []" "[] = js s \<longleftrightarrow> s = []"
  by (auto simp: js_def)

subsection \<open>The steps of a run\<close>

lemma prompt_Cons:
  "inputs w = l # ls \<Longrightarrow> prompt q w = (Some l, w\<lparr>inputs := ls, trace := trace w @ [Ask q]\<rparr>)"
  by (simp add: prompt_def)

lemma readJson_Inr:
  "content w = Inr v \<Longrightarrow> readJson f content w = (Some v, w\<lparr>trace := trace w @ [ReadFile f]\<rparr>)"
  by (simp add: readJson_def)

lemma indexLoop_found:
  "\<forall>p\<in>set pre. photo_id p \<noteq> Some (JNum n) \<Longrightarrow> photo_id photo = Some (JNum n) \<Longrightarrow>
   indexLoop (map Obj pre @ Obj photo # post) (Num n) i = Inr (Some (i + length pre))"
  by (induction pre arbitrary: i) (simp_all add: idEquals_def)

lemma nth_found: "(map Obj pre @ Obj photo # post) ! length pre = Obj photo"
  by (simp add: nth_append)

lemma update_found: "(map Obj pre @ Obj photo # post)[length pre := x] = map Obj pre @ x # post"
  by (simp add: list_update_append)

lemma isDuplicate_iff:
  "isDuplicate lower ts tagToAdd \<longleftrightarrow> (\<exists>t\<in>set ts. lower t = lower tagToAdd)"
  by (simp add: isDuplicate_def list_ex_iff)

text \<open>
  Tag Photo on a valid identifier, a non-blank tag and a collection whose first
  photo with that identifier has no \<^verbatim>\<open>null\<close> before it.
\<close>

lemma tag_run:
  assumes "inputs w = idInput # tagInput # rest"
    and "parseInt idInput = Num n"
    and "trim tagInput \<noteq> []"
    and "photosFile w = Inr (map Obj pre @ Obj photo # post)"
    and "\<forall>p\<in>set pre. photo_id p \<noteq> Some (JNum n)"
    and "photo_id photo = Some (JNum n)"
  shows "tagPhotoFeature w =
    (let w3 = w\<lparr>inputs := rest,
            trace := trace w @
              [Ask (js ''What photo ID to tag? ''), Ask (js ''What tag to add (single tag)? ''),
               ReadFile (js ''photos.json'')]\<rparr>
     in if isDuplicate (toLowerCase w) (orNil (tags photo)) (trim tagInput)
        then (Done, console_log (js ''Tag already exists, no changes made'') w3)
        else (Done, console_log (js ''Updated!'')
               (writeJson (js ''photos.json'')
                 (map Obj pre @ Obj (photo\<lparr>tags := Some (orNil (tags photo) @ [trim tagInput])\<rparr>) # post) w3)))"
  using assms
  by (simp add: tagPhotoFeature_def prompt_Cons readJson_Inr PHOTOS_FILE_def Let_def
      indexLoop_found [where i = 0, simplified] nth_found update_found)

text \<open>Update Photo Details under the same conditions.\<close>

lemma update_run:
  assumes "inputs w = idInput # newTitle # newDesc # rest"
    and "parseInt idInput = Num n"
    and "photosFile w = Inr (map Obj pre @ Obj photo # post)"
    and "\<forall>p\<in>set pre. photo_id p \<noteq> Some (JNum n)"
    and "photo_id photo = Some (JNum n)"
  shows "updatePhotoDetailsFeature w =
    (Done, console_log (js ''Photo updated'')
       (writeJson (js ''photos.json'')
          (map Obj pre @
           Obj (photo\<lparr>title := (if trim newTitle = [] then title photo else Some newTitle),
                     description := (if trim newDesc = [] then description photo else Some newDesc)\<rparr>) # post)
          (w\<lparr>inputs := rest,
             trace := trace w @
               [Ask (js ''Photo ID? ''), ReadFile (js ''photos.json''),
                Print (js ''Press enter to reuse existing value.''),
                Ask (js ''Enter value for title ['' @ orEmpty (title photo) @ js '']: ''),
                Ask (js ''Enter value for description ['' @ orEmpty (description photo) @ js '']: '')]\<rparr>)))"
  using assms
  by (simp add: updatePhotoDetailsFeature_def prompt_Cons readJson_Inr PHOTOS_FILE_def Let_def
      console_log_def indexLoop_found [where i = 0, simplified] nth_found update_found)

lemma written_append: "written (xs @ ys) = written xs @ written ys"
  by (induction xs rule: written.induct) simp_all

subsection \<open>Catalog lookup\<close>

lemma scanById_objs:
  "scanById (map Obj qs) (Num n) = Inr (find (\<lambda>p. photo_id p = Some (JNum n)) qs)"
  by (induction qs) (simp_all add: idEquals_def)

lemma scanById_null:
  "scanById (map Obj qs @ Null # rest) (Num n) =
     (case find (\<lambda>p. photo_id p = Some (JNum n)) qs of
        Some p \<Rightarrow> Inr (Some p)
      | None \<Rightarrow> Inl (TypeError ''id''))"
  by (induction qs) (simp_all add: idEquals_def)

lemma albumLoop_objs:
  "albumLoop lower (map Obj as) albumNameInput =
     Inr (find (\<lambda>a. nameMatches lower a albumNameInput) as)"
  by (induction as) simp_all

text \<open>
  C7, as stated: for every photos value and every integer id, \<^verbatim>\<open>findPhotoById\<close> returns
  the first photo whose id is exactly the requested integer, and an absent result when
  no photo matches. It fails on the array \<^verbatim>\<open>[null]\<close>: no photo matches, and the
  function raises instead of returning an absent result.
\<close>

theorem findPhotoById_null_counterexample:
  "findPhotoById (PhotoArray [Null]) (Num 1) = Inl (TypeError ''id'')"
  by (simp add: findPhotoById_def)

text \<open>
  C7, amended: a value that is not an array gives an absent result, without raising.
  On an array of photo objects the result is the first photo whose id is exactly the
  number asked for (an id that is a string never matches), or an absent result when
  there is none. When the array has a \<^verbatim>\<open>null\<close> element, the photos before it are
  searched in the same way, and the function raises a \<^verbatim>\<open>TypeError\<close> when none of
  them matches.
\<close>

theorem findPhotoById_first_match:
  "findPhotoById (NotArray v) (Num n) = Inr None \<and>
   findPhotoById (PhotoArray (map Obj qs)) (Num n) =
     Inr (find (\<lambda>p. photo_id p = Some (JNum n)) qs) \<and>
   findPhotoById (PhotoArray (map Obj qs @ Null # rest)) (Num n) =
     (case find (\<lambda>p. photo_id p = Some (JNum n)) qs of
        Some p \<Rightarrow> Inr (Some p)
      | None \<Rightarrow> Inl (TypeError ''id''))"
  by (simp add: findPhotoById_def scanById_objs scanById_null)

text \<open>The identifier \<^verbatim>\<open>"1"\<close> is not the identifier \<^verbatim>\<open>1\<close>.\<close>

lemma findPhotoById_no_coercion:
  "findPhotoById
     (PhotoArray [Obj \<lparr>photo_id = Some (JStr (js ''1'')), filename = None, title = None,
        description = None, date = None, resolution = None, albums = None, tags = None,
        other = []\<rparr>]) (Num 1) = Inr None"
  by (simp add: findPhotoById_def idEquals_def)

subsection \<open>Tag Photo\<close>

text \<open>
  C1: when the tags of the photo contain a tag equal to the requested tag (the entered
  text, trimmed) up to letter case, that is, with the same \<^verbatim>\<open>toLowerCase\<close>, Tag Photo
  prints \<^verbatim>\<open>Tag already exists, no changes made\<close> and ends: the trace has no write,
  and the photo collection is the one that was there before.
\<close>

theorem tag_duplicate_no_save:
  assumes "inputs w = idInput # tagInput # rest"
    and "parseInt idInput = Num n"
    and "trim tagInput \<noteq> []"
    and "photosFile w = Inr (map Obj pre @ Obj photo # post)"
    and "\<forall>p\<in>set pre. photo_id p \<noteq> Some (JNum n)"
    and "photo_id photo = Some (JNum n)"
    and "t \<in> set (orNil (tags photo))"
    and "toLowerCase w t = toLowerCase w (trim tagInput)"
  shows "tagPhotoFeature w =
    (Done, w\<lparr>inputs := rest,
             trace := trace w @
               [Ask (js ''What photo ID to tag? ''), Ask (js ''What tag to add (single tag)? ''),
                ReadFile (js ''photos.json''),
                Print (js ''Tag already exists, no changes made'')]\<rparr>) \<and>
    photosFile (snd (tagPhotoFeature w)) = photosFile w"
proof -
  have "isDuplicate (toLowerCase w) (orNil (tags photo)) (trim tagInput)"
    using assms(7,8) by (auto simp: isDuplicate_iff)
  then show ?thesis
    using tag_run [OF assms(1-6)] by (simp add: console_log_def)
qed

text \<open>
  The photo already tagged \<^verbatim>\<open>Beach\<close>, asked to be tagged \<^verbatim>\<open>BEACH\<close> with a no-break
  space before it and a space after it.
\<close>

theorem tag_duplicate_no_save_witness:
  "tagPhotoFeature
     \<lparr>photosFile = Inr [Obj \<lparr>photo_id = Some (JNum 7), filename = Some (js ''a.jpg''),
        title = None, description = None, date = None, resolution = None, albums = None,
        tags = Some [js ''Beach''], other = []\<rparr>],
      albumsFile = Inr [], writeError = None, localeDate = (\<lambda>t. []),
      toLowerCase = latin1LowerCase,
      inputs = [js ''7'', 0xA0 # js ''BEACH ''], trace = []\<rparr> =
   (Done,
     \<lparr>photosFile = Inr [Obj \<lparr>photo_id = Some (JNum 7), filename = Some (js ''a.jpg''),
        title = None, description = None, date = None, resolution = None, albums = None,
        tags = Some [js ''Beach''], other = []\<rparr>],
      albumsFile = Inr [], writeError = None, localeDate = (\<lambda>t. []),
      toLowerCase = latin1LowerCase,
      inputs = [],
      trace = [Ask (js ''What photo ID to tag? ''), Ask (js ''What tag to add (single tag)? ''),
               ReadFile (js ''photos.json''),
               Print (js ''Tag already exists, no changes made'')]\<rparr>)"
proof -
  have p: "parseInt (js ''7'') = Num 7" by code_simp
  have t: "trim (0xA0 # js ''BEACH '') = js ''BEACH''" by code_simp
  have l: "latin1LowerCase (js ''Beach'') = latin1LowerCase (js ''BEACH'')" by code_simp
  show ?thesis
    using tag_duplicate_no_save [of _ "js ''7''" "0xA0 # js ''BEACH ''" "[]" 7 "[]" _ "[]"
        "js ''Beach''",
      where w = "\<lparr>photosFile = Inr [Obj \<lparr>photo_id = Some (JNum 7),
        filename = Some (js ''a.jpg''),
        title = None, description = None, date = None, resolution = None, albums = None,
        tags = Some [js ''Beach''], other = []\<rparr>],
      albumsFile = Inr [], writeError = None, localeDate = (\<lambda>t. []),
      toLowerCase = latin1LowerCase,
      inputs = [js ''7'', 0xA0 # js ''BEACH ''], trace = []\<rparr>"] p t l
    by (simp add: orNil_def)
qed

text \<open>
  Read from the start: a photo without tags is tagged \<^verbatim>\<open>Beach\<close>, then \<^verbatim>\<open>BEACH\<close>;
  the stored tags are \<^verbatim>\<open>Beach\<close> alone.
\<close>

lemma beach_then_BEACH:
  "photosFile (snd (tagPhotoFeature (snd (tagPhotoFeature
     \<lparr>photosFile = Inr [Obj \<lparr>photo_id = Some (JNum 7), filename = Some (js ''a.jpg''),
        title = None, description = None, date = None, resolution = None, albums = None,
        tags = None, other = []\<rparr>],
      albumsFile = Inr [], writeError = None, localeDate = (\<lambda>t. []),
      toLowerCase = latin1LowerCase,
      inputs = [js ''7'', js ''Beach'', js ''7'', js ''BEACH''], trace = []\<rparr>)))) =
   Inr [Obj \<lparr>photo_id = Some (JNum 7), filename = Some (js ''a.jpg''), title = None,
        description = None, date = None, resolution = None, albums = None,
        tags = Some [js ''Beach''], other = []\<rparr>]"
  by code_simp

text \<open>
  The same with letters beyond ASCII: tagged \<^verbatim>\<open>\u00e9t\u00e9\<close>, asked to be tagged
  \<^verbatim>\<open>\u00c9T\u00c9\<close>, nothing is written.
\<close>

lemma ete_then_ETE:
  "written (trace (snd (tagPhotoFeature
     \<lparr>photosFile = Inr [Obj \<lparr>photo_id = Some (JNum 7), filename = Some (js ''a.jpg''),
        title = None, description = None, date = None, resolution = None, albums = None,
        tags = Some [[0xE9, 0x74, 0xE9]], other = []\<rparr>],
      albumsFile = Inr [], writeError = None, localeDate = (\<lambda>t. []),
      toLowerCase = latin1LowerCase,
      inputs = [js ''7'', [0xC9, 0x54, 0xC9]], trace = []\<rparr>))) = []"
  by code_simp

text \<open>
  C8: when no tag of the photo equals the requested tag up to letter case, the entered
  text, trimmed and in its own casing, is appended after the tags already there, which
  stay as they were; the whole collection is written to \<^verbatim>\<open>photos.json\<close>, and
  \<^verbatim>\<open>Updated!\<close> is printed. (The write is taken to succeed here; C9 is the other case.)
\<close>

theorem tag_success_appends:
  assumes "inputs w = idInput # tagInput # rest"
    and "parseInt idInput = Num n"
    and "trim tagInput \<noteq> []"
    and "photosFile w = Inr (map Obj pre @ Obj photo # post)"
    and "\<forall>p\<in>set pre. photo_id p \<noteq> Some (JNum n)"
    and "photo_id photo = Some (JNum n)"
    and "\<forall>t\<in>set (orNil (tags photo)). toLowerCase w t \<noteq> toLowerCase w (trim tagInput)"
    and "writeError w = None"
  shows "tagPhotoFeature w =
    (Done, w\<lparr>photosFile :=
               Inr (map Obj pre @
                    Obj (photo\<lparr>tags := Some (orNil (tags photo) @ [trim tagInput])\<rparr>) # post),
             inputs := rest,
             trace := trace w @
               [Ask (js ''What photo ID to tag? ''), Ask (js ''What tag to add (single tag)? ''),
                ReadFile (js ''photos.json''),
                WriteFile (js ''photos.json'')
                  (map Obj pre @
                   Obj (photo\<lparr>tags := Some (orNil (tags photo) @ [trim tagInput])\<rparr>) # post),
                Print (js ''Updated!'')]\<rparr>)"
proof -
  have "\<not> isDuplicate (toLowerCase w) (orNil (tags photo)) (trim tagInput)"
    using assms(7) by (simp add: isDuplicate_iff)
  then show ?thesis
    using tag_run [OF assms(1-6)] assms(8) by (simp add: console_log_def writeJson_def)
qed

text \<open>
  \<^verbatim>\<open>x\<close> is there, \<^verbatim>\<open>Beach\<close> is asked for between a no-break space and a byte
  order mark: \<^verbatim>\<open>Beach\<close> goes after \<^verbatim>\<open>x\<close>.
\<close>

theorem tag_success_appends_witness:
  "tagPhotoFeature
     \<lparr>photosFile = Inr [Obj \<lparr>photo_id = Some (JNum 7), filename = Some (js ''a.jpg''),
        title = None, description = None, date = None, resolution = None, albums = None,
        tags = Some [js ''x''], other = []\<rparr>],
      albumsFile = Inr [], writeError = None, localeDate = (\<lambda>t. []),
      toLowerCase = latin1LowerCase,
      inputs = [js ''7'', 0xA0 # js ''Beach'' @ [0xFEFF]], trace = []\<rparr> =
   (Done,
     \<lparr>photosFile = Inr [Obj \<lparr>photo_id = Some (JNum 7), filename = Some (js ''a.jpg''),
        title = None, description = None, date = None, resolution = None, albums = None,
        tags = Some [js ''x'', js ''Beach''], other = []\<rparr>],
      albumsFile = Inr [], writeError = None, localeDate = (\<lambda>t. []),
      toLowerCase = latin1LowerCase,
      inputs = [],
      trace = [Ask (js ''What photo ID to tag? ''), Ask (js ''What tag to add (single tag)? ''),
               ReadFile (js ''photos.json''),
               WriteFile (js ''photos.json'')
                 [Obj \<lparr>photo_id = Some (JNum 7), filename = Some (js ''a.jpg''),
                    title = None, description = None, date = None, resolution = None,
                    albums = None, tags = Some [js ''x'', js ''Beach''], other = []\<rparr>],
               Print (js ''Updated!'')]\<rparr>)"
proof -
  have p: "parseInt (js ''7'') = Num 7" by code_simp
  have t: "trim (0xA0 # js ''Beach'' @ [0xFEFF]) = js ''Beach''" by code_simp
  have l: "latin1LowerCase (js ''x'') \<noteq> latin1LowerCase (js ''Beach'')" by code_simp
  show ?thesis
    using tag_success_appends [of _ "js ''7''" "0xA0 # js ''Beach'' @ [0xFEFF]" "[]" 7 "[]" _ "[]",
      where w = "\<lparr>photosFile = Inr [Obj \<lparr>photo_id = Some (JNum 7),
        filename = Some (js ''a.jpg''),
        title = None, description = None, date = None, resolution = None, albums = None,
        tags = Some [js ''x''], other = []\<rparr>],
      albumsFile = Inr [], writeError = None, localeDate = (\<lambda>t. []),
      toLowerCase = latin1LowerCase,
      inputs = [js ''7'', 0xA0 # js ''Beach'' @ [0xFEFF]], trace = []\<rparr>"] p t l
    by (simp add: orNil_def)
qed

text \<open>A tag that is a no-break space is empty after trimming: nothing is read.\<close>

lemma tag_no_break_space:
  assumes "inputs w = idInput # [0xA0] # rest"
    and "parseInt idInput = Num n"
  shows "tagPhotoFeature w =
    (Done, w\<lparr>inputs := rest,
             trace := trace w @
               [Ask (js ''What photo ID to tag? ''), Ask (js ''What tag to add (single tag)? ''),
                Print (js ''Tag cannot be empty'')]\<rparr>)"
proof -
  have "trim [0xA0] = []" by code_simp
  then show ?thesis
    using assms by (simp add: tagPhotoFeature_def prompt_Cons console_log_def)
qed

subsection \<open>Update Photo Details\<close>

text \<open>
  C3: for the title and for the description alike, an answer that is empty after
  trimming leaves the stored field as it was, and any other answer becomes the stored
  field as it was typed, untrimmed, whether or not it differs from the current value.
  (The write is taken to succeed here; C9 is the other case.)
\<close>

theorem update_fields:
  assumes "inputs w = idInput # newTitle # newDesc # rest"
    and "parseInt idInput = Num n"
    and "photosFile w = Inr (map Obj pre @ Obj photo # post)"
    and "\<forall>p\<in>set pre. photo_id p \<noteq> Some (JNum n)"
    and "photo_id photo = Some (JNum n)"
    and "writeError w = None"
  shows "updatePhotoDetailsFeature w =
    (Done, w\<lparr>photosFile :=
               Inr (map Obj pre @
                    Obj (photo\<lparr>title := (if trim newTitle = [] then title photo else Some newTitle),
                              description :=
                                (if trim newDesc = [] then description photo else Some newDesc)\<rparr>) #
                    post),
             inputs := rest,
             trace := trace w @
               [Ask (js ''Photo ID? ''), ReadFile (js ''photos.json''),
                Print (js ''Press enter to reuse existing value.''),
                Ask (js ''Enter value for title ['' @ orEmpty (title photo) @ js '']: ''),
                Ask (js ''Enter value for description ['' @ orEmpty (description photo) @ js '']: ''),
                WriteFile (js ''photos.json'')
                  (map Obj pre @
                   Obj (photo\<lparr>title := (if trim newTitle = [] then title photo else Some newTitle),
                             description :=
                               (if trim newDesc = [] then description photo else Some newDesc)\<rparr>) #
                   post),
                Print (js ''Photo updated'')]\<rparr>)"
  using update_run [OF assms(1-5)] assms(6) by (simp add: console_log_def writeJson_def)

text \<open>
  A title answered with a no-break space and a tab, which is blank, and the description
  \<^verbatim>\<open> New text \<close>, kept with its spaces.
\<close>

theorem update_fields_witness:
  "updatePhotoDetailsFeature
     \<lparr>photosFile = Inr [Obj \<lparr>photo_id = Some (JNum 7), filename = Some (js ''a.jpg''),
        title = Some (js ''Old''), description = Some (js ''Was''), date = None,
        resolution = None, albums = None, tags = None, other = []\<rparr>],
      albumsFile = Inr [], writeError = None, localeDate = (\<lambda>t. []),
      toLowerCase = latin1LowerCase,
      inputs = [js ''7'', [0xA0, 0x09], js '' New text ''], trace = []\<rparr> =
   (Done,
     \<lparr>photosFile = Inr [Obj \<lparr>photo_id = Some (JNum 7), filename = Some (js ''a.jpg''),
        title = Some (js ''Old''), description = Some (js '' New text ''), date = None,
        resolution = None, albums = None, tags = None, other = []\<rparr>],
      albumsFile = Inr [], writeError = None, localeDate = (\<lambda>t. []),
      toLowerCase = latin1LowerCase,
      inputs = [],
      trace = [Ask (js ''Photo ID? ''), ReadFile (js ''photos.json''),
               Print (js ''Press enter to reuse existing value.''),
               Ask (js ''Enter value for title [Old]: ''),
               Ask (js ''Enter value for description [Was]: ''),
               WriteFile (js ''photos.json'')
                 [Obj \<lparr>photo_id = Some (JNum 7), filename = Some (js ''a.jpg''),
                    title = Some (js ''Old''), description = Some (js '' New text ''),
                    date = None, resolution = None, albums = None, tags = None,
                    other = []\<rparr>],
               Print (js ''Photo updated'')]\<rparr>)"
proof -
  have p: "parseInt (js ''7'') = Num 7" by code_simp
  have t: "trim [0xA0, 0x09] = []" by code_simp
  have d: "trim (js '' New text '') \<noteq> []" by code_simp
  have a: "js ''Enter value for title ['' @ js ''Old'' @ js '']: '' =
      js ''Enter value for title [Old]: ''"
    "js ''Enter value for description ['' @ js ''Was'' @ js '']: '' =
      js ''Enter value for description [Was]: ''"
    by (simp_all add: js_def)
  show ?thesis
    using update_fields [of _ "js ''7''" "[0xA0, 0x09]" "js '' New text ''" "[]" 7 "[]"
        "\<lparr>photo_id = Some (JNum 7), filename = Some (js ''a.jpg''),
        title = Some (js ''Old''), description = Some (js ''Was''), date = None,
        resolution = None, albums = None, tags = None, other = []\<rparr>" "[]",
      where w = "\<lparr>photosFile = Inr [Obj \<lparr>photo_id = Some (JNum 7),
        filename = Some (js ''a.jpg''),
        title = Some (js ''Old''), description = Some (js ''Was''), date = None,
        resolution = None, albums = None, tags = None, other = []\<rparr>],
      albumsFile = Inr [], writeError = None, localeDate = (\<lambda>t. []),
      toLowerCase = latin1LowerCase,
      inputs = [js ''7'', [0xA0, 0x09], js '' New text ''], trace = []\<rparr>"] p t d a
    by (simp add: orEmpty_def)
qed

text \<open>
  C10: the collection that Update Photo Details writes back is the loaded collection
  with the first photo of the requested identifier replaced by a photo that differs
  from it in title and description at most: the photos before and after it, their
  order and number, and every other attribute of the photo itself are as loaded.
\<close>

theorem update_frame:
  assumes "inputs w = idInput # newTitle # newDesc # rest"
    and "parseInt idInput = Num n"
    and "photosFile w = Inr (map Obj pre @ Obj photo # post)"
    and "\<forall>p\<in>set pre. photo_id p \<noteq> Some (JNum n)"
    and "photo_id photo = Some (JNum n)"
  shows "\<exists>photo'.
    written (trace (snd (updatePhotoDetailsFeature w))) =
      written (trace w) @ [map Obj pre @ Obj photo' # post] \<and>
    photo'\<lparr>title := title photo, description := description photo\<rparr> = photo"
proof -
  let ?photo' = "photo\<lparr>title := (if trim newTitle = [] then title photo else Some newTitle),
    description := (if trim newDesc = [] then description photo else Some newDesc)\<rparr>"
  have "written (trace (snd (updatePhotoDetailsFeature w))) =
      written (trace w) @ [map Obj pre @ Obj ?photo' # post]"
    using update_run [OF assms]
    by (cases "writeError w") (simp_all add: console_log_def writeJson_def written_append)
  moreover have "?photo'\<lparr>title := title photo, description := description photo\<rparr> = photo"
    by simp
  ultimately show ?thesis by blast
qed

text \<open>The second of three elements is updated; the first and the \<^verbatim>\<open>null\<close> stay.\<close>

theorem update_frame_witness:
  "\<exists>photo'.
    written (trace (snd (updatePhotoDetailsFeature
      \<lparr>photosFile = Inr [Obj \<lparr>photo_id = Some (JNum 3), filename = Some (js ''b.jpg''),
          title = None, description = None, date = None, resolution = None,
          albums = None, tags = None, other = []\<rparr>,
         Obj \<lparr>photo_id = Some (JNum 7), filename = Some (js ''a.jpg''),
          title = Some (js ''Old''), description = Some (js ''Was''), date = Some 5,
          resolution = None, albums = Some [1], tags = Some [js ''x''],
          other = [(js ''camera'', JStr (js ''k''))]\<rparr>,
         Null],
       albumsFile = Inr [], writeError = None, localeDate = (\<lambda>t. []),
       toLowerCase = latin1LowerCase,
       inputs = [js ''7'', js ''New'', []], trace = []\<rparr>))) =
    [] @ [map Obj [\<lparr>photo_id = Some (JNum 3), filename = Some (js ''b.jpg''),
          title = None, description = None, date = None, resolution = None,
          albums = None, tags = None, other = []\<rparr>] @ Obj photo' # [Null]] \<and>
    photo'\<lparr>title := Some (js ''Old''), description := Some (js ''Was'')\<rparr> =
      \<lparr>photo_id = Some (JNum 7), filename = Some (js ''a.jpg''),
          title = Some (js ''Old''), description = Some (js ''Was''), date = Some 5,
          resolution = None, albums = Some [1], tags = Some [js ''x''],
          other = [(js ''camera'', JStr (js ''k''))]\<rparr>"
proof -
  have p: "parseInt (js ''7'') = Num 7" by code_simp
  show ?thesis
    using update_frame [of _ "js ''7''" "js ''New''" "[]" "[]" 7
      "[\<lparr>photo_id = Some (JNum 3), filename = Some (js ''b.jpg''),
          title = None, description = None, date = None, resolution = None,
          albums = None, tags = None, other = []\<rparr>]"
      "\<lparr>photo_id = Some (JNum 7), filename = Some (js ''a.jpg''),
          title = Some (js ''Old''), description = Some (js ''Was''), date = Some 5,
          resolution = None, albums = Some [1], tags = Some [js ''x''],
          other = [(js ''camera'', JStr (js ''k''))]\<rparr>"
      "[Null]",
      where w = "\<lparr>photosFile = Inr [Obj \<lparr>photo_id = Some (JNum 3),
          filename = Some (js ''b.jpg''),
          title = None, description = None, date = None, resolution = None,
          albums = None, tags = None, other = []\<rparr>,
         Obj \<lparr>photo_id = Some (JNum 7), filename = Some (js ''a.jpg''),
          title = Some (js ''Old''), description = Some (js ''Was''), date = Some 5,
          resolution = None, albums = Some [1], tags = Some [js ''x''],
          other = [(js ''camera'', JStr (js ''k''))]\<rparr>,
         Null],
       albumsFile = Inr [], writeError = None, localeDate = (\<lambda>t. []),
       toLowerCase = latin1LowerCase,
       inputs = [js ''7'', js ''New'', []], trace = []\<rparr>"] p
    by simp
qed

subsection \<open>Save errors\<close>

text \<open>
  C9: when the write fails, \<^verbatim>\<open>writeJson\<close> prints a diagnostic that names the
  document and carries the message of the error, and the feature goes on to print its
  confirmation, \<^verbatim>\<open>Photo updated\<close> for Update Photo Details and \<^verbatim>\<open>Updated!\<close> for
  Tag Photo, and ends normally, as after a write that succeeded.
\<close>

theorem save_failure_still_confirms:
  assumes "writeError w = Some msg"
    and "inputs w = idInput # answers"
    and "parseInt idInput = Num n"
    and "photosFile w = Inr (map Obj pre @ Obj photo # post)"
    and "\<forall>p\<in>set pre. photo_id p \<noteq> Some (JNum n)"
    and "photo_id photo = Some (JNum n)"
  shows
   "(answers = newTitle # newDesc # rest \<longrightarrow>
      updatePhotoDetailsFeature w =
        (Done, w\<lparr>inputs := rest,
                 trace := trace w @
                   [Ask (js ''Photo ID? ''), ReadFile (js ''photos.json''),
                    Print (js ''Press enter to reuse existing value.''),
                    Ask (js ''Enter value for title ['' @ orEmpty (title photo) @ js '']: ''),
                    Ask (js ''Enter value for description ['' @ orEmpty (description photo) @
                         js '']: ''),
                    WriteFile (js ''photos.json'')
                      (map Obj pre @
                       Obj (photo\<lparr>title := (if trim newTitle = [] then title photo else Some newTitle),
                                 description :=
                                   (if trim newDesc = [] then description photo else Some newDesc)\<rparr>) #
                       post),
                    Print (js ''Error writing file photos.json - '' @ msg),
                    Print (js ''Photo updated'')]\<rparr>)) \<and>
    (answers = tagInput # rest' \<and> trim tagInput \<noteq> [] \<and>
     \<not> isDuplicate (toLowerCase w) (orNil (tags photo)) (trim tagInput) \<longrightarrow>
      tagPhotoFeature w =
        (Done, w\<lparr>inputs := rest',
                 trace := trace w @
                   [Ask (js ''What photo ID to tag? ''),
                    Ask (js ''What tag to add (single tag)? ''),
                    ReadFile (js ''photos.json''),
                    WriteFile (js ''photos.json'')
                      (map Obj pre @
                       Obj (photo\<lparr>tags := Some (orNil (tags photo) @ [trim tagInput])\<rparr>) # post),
                    Print (js ''Error writing file photos.json - '' @ msg),
                    Print (js ''Updated!'')]\<rparr>))"
proof -
  have m: "js ''Error writing file '' @ js ''photos.json'' @ js '' - '' @ msg =
      js ''Error writing file photos.json - '' @ msg"
    by (simp add: js_def)
  show ?thesis
  proof (intro conjI impI)
    assume "answers = newTitle # newDesc # rest"
    then have "inputs w = idInput # newTitle # newDesc # rest"
      using assms(2) by simp
    from update_run [OF this assms(3-6)] assms(1) m
    show "updatePhotoDetailsFeature w =
        (Done, w\<lparr>inputs := rest,
                 trace := trace w @
                   [Ask (js ''Photo ID? ''), ReadFile (js ''photos.json''),
                    Print (js ''Press enter to reuse existing value.''),
                    Ask (js ''Enter value for title ['' @ orEmpty (title photo) @ js '']: ''),
                    Ask (js ''Enter value for description ['' @ orEmpty (description photo) @
                         js '']: ''),
                    WriteFile (js ''photos.json'')
                      (map Obj pre @
                       Obj (photo\<lparr>title := (if trim newTitle = [] then title photo else Some newTitle),
                                 description :=
                                   (if trim newDesc = [] then description photo else Some newDesc)\<rparr>) #
                       post),
                    Print (js ''Error writing file photos.json - '' @ msg),
                    Print (js ''Photo updated'')]\<rparr>)"
      by (simp add: console_log_def writeJson_def)
  next
    assume a: "answers = tagInput # rest' \<and> trim tagInput \<noteq> [] \<and>
     \<not> isDuplicate (toLowerCase w) (orNil (tags photo)) (trim tagInput)"
    then have "inputs w = idInput # tagInput # rest'"
      using assms(2) by simp
    from tag_run [OF this assms(3) _ assms(4-6)] a assms(1) m
    show "tagPhotoFeature w =
        (Done, w\<lparr>inputs := rest',
                 trace := trace w @
                   [Ask (js ''What photo ID to tag? ''),
                    Ask (js ''What tag to add (single tag)? ''),
                    ReadFile (js ''photos.json''),
                    WriteFile (js ''photos.json'')
                      (map Obj pre @
                       Obj (photo\<lparr>tags := Some (orNil (tags photo) @ [trim tagInput])\<rparr>) # post),
                    Print (js ''Error writing file photos.json - '' @ msg),
                    Print (js ''Updated!'')]\<rparr>)"
      by (simp add: console_log_def writeJson_def)
  qed
qed

text \<open>A write refused for lack of permission, in both features.\<close>

theorem save_failure_still_confirms_witness:
  "updatePhotoDetailsFeature
     \<lparr>photosFile = Inr [Obj \<lparr>photo_id = Some (JNum 7), filename = Some (js ''a.jpg''),
        title = Some (js ''Old''), description = None, date = None, resolution = None,
        albums = None, tags = None, other = []\<rparr>],
      albumsFile = Inr [], writeError = Some (js ''EACCES: permission denied''),
      localeDate = (\<lambda>t. []), toLowerCase = latin1LowerCase,
      inputs = [js ''7'', js ''Sunset'', js ''x''], trace = []\<rparr> =
   (Done,
     \<lparr>photosFile = Inr [Obj \<lparr>photo_id = Some (JNum 7), filename = Some (js ''a.jpg''),
        title = Some (js ''Old''), description = None, date = None, resolution = None,
        albums = None, tags = None, other = []\<rparr>],
      albumsFile = Inr [], writeError = Some (js ''EACCES: permission denied''),
      localeDate = (\<lambda>t. []), toLowerCase = latin1LowerCase, inputs = [],
      trace = [Ask (js ''Photo ID? ''), ReadFile (js ''photos.json''),
               Print (js ''Press enter to reuse existing value.''),
               Ask (js ''Enter value for title [Old]: ''),
               Ask (js ''Enter value for description []: ''),
               WriteFile (js ''photos.json'')
                 [Obj \<lparr>photo_id = Some (JNum 7), filename = Some (js ''a.jpg''),
                    title = Some (js ''Sunset''), description = Some (js ''x''), date = None,
                    resolution = None, albums = None, tags = None, other = []\<rparr>],
               Print (js ''Error writing file photos.json - EACCES: permission denied''),
               Print (js ''Photo updated'')]\<rparr>) \<and>
   tagPhotoFeature
     \<lparr>photosFile = Inr [Obj \<lparr>photo_id = Some (JNum 7), filename = Some (js ''a.jpg''),
        title = Some (js ''Old''), description = None, date = None, resolution = None,
        albums = None, tags = None, other = []\<rparr>],
      albumsFile = Inr [], writeError = Some (js ''EACCES: permission denied''),
      localeDate = (\<lambda>t. []), toLowerCase = latin1LowerCase,
      inputs = [js ''7'', js ''Sunset'', js ''x''], trace = []\<rparr> =
   (Done,
     \<lparr>photosFile = Inr [Obj \<lparr>photo_id = Some (JNum 7), filename = Some (js ''a.jpg''),
        title = Some (js ''Old''), description = None, date = None, resolution = None,
        albums = None, tags = None, other = []\<rparr>],
      albumsFile = Inr [], writeError = Some (js ''EACCES: permission denied''),
      localeDate = (\<lambda>t. []), toLowerCase = latin1LowerCase, inputs = [js ''x''],
      trace = [Ask (js ''What photo ID to tag? ''), Ask (js ''What tag to add (single tag)? ''),
               ReadFile (js ''photos.json''),
               WriteFile (js ''photos.json'')
                 [Obj \<lparr>photo_id = Some (JNum 7), filename = Some (js ''a.jpg''),
                    title = Some (js ''Old''), description = None, date = None,
                    resolution = None, albums = None, tags = Some [js ''Sunset''],
                    other = []\<rparr>],
               Print (js ''Error writing file photos.json - EACCES: permission denied''),
               Print (js ''Updated!'')]\<rparr>)"
proof -
  have p: "parseInt (js ''7'') = Num 7" by code_simp
  have t: "trim (js ''Sunset'') = js ''Sunset''" by code_simp
  have d: "trim (js ''x'') = js ''x''" by code_simp
  have a: "js ''Enter value for title ['' @ js ''Old'' @ js '']: '' =
      js ''Enter value for title [Old]: ''"
    "js ''Enter value for description ['' @ js '']: '' =
      js ''Enter value for description []: ''"
    "js ''Error writing file photos.json - '' @ js ''EACCES: permission denied'' =
      js ''Error writing file photos.json - EACCES: permission denied''"
    by (simp_all add: js_def)
  show ?thesis
    using save_failure_still_confirms [of _ "js ''EACCES: permission denied''" "js ''7''"
      "[js ''Sunset'', js ''x'']" 7 "[]"
      "\<lparr>photo_id = Some (JNum 7), filename = Some (js ''a.jpg''),
        title = Some (js ''Old''), description = None, date = None, resolution = None,
        albums = None, tags = None, other = []\<rparr>"
      "[]" "js ''Sunset''" "js ''x''" "[]" "js ''Sunset''" "[js ''x'']",
      where w = "\<lparr>photosFile = Inr [Obj \<lparr>photo_id = Some (JNum 7),
        filename = Some (js ''a.jpg''),
        title = Some (js ''Old''), description = None, date = None, resolution = None,
        albums = None, tags = None, other = []\<rparr>],
      albumsFile = Inr [], writeError = Some (js ''EACCES: permission denied''),
      localeDate = (\<lambda>t. []), toLowerCase = latin1LowerCase,
      inputs = [js ''7'', js ''Sunset'', js ''x''], trace = []\<rparr>"] p t d a
    by (simp add: orEmpty_def orNil_def isDuplicate_def)
qed

subsection \<open>Input validation\<close>

lemma isDigit_not_space: "isDigit d \<Longrightarrow> \<not> isWhiteSpace d"
  by (auto simp: isDigit_def isWhiteSpace_def)

lemma isDigit_not_sign: "isDigit d \<Longrightarrow> d \<noteq> 0x2D \<and> d \<noteq> 0x2B"
  by (auto simp: isDigit_def)

lemma sign_not_space: "\<not> isWhiteSpace 0x2D" "\<not> isWhiteSpace 0x2B"
  by (simp_all add: isWhiteSpace_def)

text \<open>
  \<^verbatim>\<open>parseInt\<close> gives a number exactly when a decimal digit follows the leading white
  space and an optional sign, whatever comes after that digit.
\<close>

lemma parseInt_NaN_iff:
  "parseInt s = NaN \<longleftrightarrow>
   \<not> (\<exists>ws sgn d tl. s = ws @ sgn @ d # tl \<and> (\<forall>c\<in>set ws. isWhiteSpace c) \<and>
        (sgn = [] \<or> sgn = [0x2B] \<or> sgn = [0x2D]) \<and> isDigit d)"
proof -
  define s1 where "s1 = dropWhile isWhiteSpace s"
  define s2 where "s2 = (if s1 \<noteq> [] \<and> (hd s1 = 0x2D \<or> hd s1 = 0x2B) then tl s1 else s1)"
  have nan: "parseInt s = NaN \<longleftrightarrow> takeWhile isDigit s2 = []"
    by (simp add: parseInt_def Let_def s1_def s2_def split: option.splits)
  have "takeWhile isDigit s2 \<noteq> [] \<longleftrightarrow>
    (\<exists>ws sgn d tl. s = ws @ sgn @ d # tl \<and> (\<forall>c\<in>set ws. isWhiteSpace c) \<and>
        (sgn = [] \<or> sgn = [0x2B] \<or> sgn = [0x2D]) \<and> isDigit d)"
  proof
    assume "takeWhile isDigit s2 \<noteq> []"
    then obtain d tl where s2: "s2 = d # tl" and d: "isDigit d"
      by (cases s2) (auto split: if_splits)
    have s: "s = takeWhile isWhiteSpace s @ s1"
      by (simp add: s1_def)
    have ws: "\<forall>c\<in>set (takeWhile isWhiteSpace s). isWhiteSpace c"
      by (auto dest: set_takeWhileD)
    have "\<exists>sgn. s1 = sgn @ s2 \<and> (sgn = [] \<or> sgn = [0x2B] \<or> sgn = [0x2D])"
    proof (cases "s1 \<noteq> [] \<and> (hd s1 = 0x2D \<or> hd s1 = 0x2B)")
      case True
      then have "s1 = [hd s1] @ s2"
        by (simp add: s2_def)
      with True show ?thesis
        by (intro exI [of _ "[hd s1]"]) auto
    next
      case False
      then have "s1 = [] @ s2"
        by (auto simp: s2_def)
      then show ?thesis
        by blast
    qed
    then obtain sgn where "s1 = sgn @ s2" and sgn: "sgn = [] \<or> sgn = [0x2B] \<or> sgn = [0x2D]"
      by blast
    then have "s = takeWhile isWhiteSpace s @ sgn @ d # tl"
      using s s2 by metis
    then show "\<exists>ws sgn d tl. s = ws @ sgn @ d # tl \<and> (\<forall>c\<in>set ws. isWhiteSpace c) \<and>
        (sgn = [] \<or> sgn = [0x2B] \<or> sgn = [0x2D]) \<and> isDigit d"
      using ws d sgn by blast
  next
    assume "\<exists>ws sgn d tl. s = ws @ sgn @ d # tl \<and> (\<forall>c\<in>set ws. isWhiteSpace c) \<and>
        (sgn = [] \<or> sgn = [0x2B] \<or> sgn = [0x2D]) \<and> isDigit d"
    then obtain ws sgn d tl where s: "s = ws @ sgn @ d # tl"
      and ws: "\<forall>c\<in>set ws. isWhiteSpace c"
      and sgn: "sgn = [] \<or> sgn = [0x2B] \<or> sgn = [0x2D]" and d: "isDigit d"
      by blast
    have "\<not> isWhiteSpace (hd (sgn @ d # tl))"
      using sgn d by (auto simp: isDigit_not_space sign_not_space)
    then have s1: "s1 = sgn @ d # tl"
      using s ws by (cases "sgn @ d # tl") (simp_all add: s1_def dropWhile_append)
    have "s2 = d # tl"
      using sgn d s1 isDigit_not_sign [OF d] by (auto simp: s2_def)
    then show "takeWhile isDigit s2 \<noteq> []"
      using d by simp
  qed
  with nan show ?thesis by blast
qed

text \<open>
  C6, as stated: every identifier that is not numeric is refused before any file is
  loaded. The answer \<^verbatim>\<open>12abc\<close> is not a numeral, yet \<^verbatim>\<open>parseInt\<close> reads \<open>12\<close> in
  it: Find Photo loads both documents and looks for photo \<open>12\<close>.
\<close>

theorem invalid_id_counterexample:
  "\<not> list_all isDigit (js ''12abc'') \<and>
   findPhotoFeature
     \<lparr>photosFile = Inr [], albumsFile = Inr [], writeError = None, localeDate = (\<lambda>t. []),
      toLowerCase = latin1LowerCase, inputs = [js ''12abc''], trace = []\<rparr> =
   (Done, \<lparr>photosFile = Inr [], albumsFile = Inr [], writeError = None,
      localeDate = (\<lambda>t. []), toLowerCase = latin1LowerCase, inputs = [],
      trace = [Ask (js ''Photo ID? ''), ReadFile (js ''photos.json''),
               ReadFile (js ''albums.json''), Print (js ''Photo not found'')]\<rparr>)"
proof -
  have p: "parseInt (js ''12abc'') = Num 12" by code_simp
  have n: "\<not> list_all isDigit (js ''12abc'')" by code_simp
  show ?thesis
    using p n
    by (simp add: findPhotoFeature_def prompt_def readJson_def console_log_def
        findPhotoById_def PHOTOS_FILE_def ALBUMS_FILE_def)
qed

text \<open>
  C6, amended: when no decimal digit follows the leading white space and the optional
  sign of the identifier typed, which is when \<^verbatim>\<open>parseInt\<close> gives \<^verbatim>\<open>NaN\<close>, Find Photo
  and Tag Photo print \<^verbatim>\<open>Invalid ID\<close> and end: the trace holds the prompt and the
  message only, so no document is read or written, and the next answer is left for
  the menu.
\<close>

theorem invalid_id_no_io:
  assumes "inputs w = idInput # rest"
    and "\<not> (\<exists>ws sgn d tl. idInput = ws @ sgn @ d # tl \<and> (\<forall>c\<in>set ws. isWhiteSpace c) \<and>
        (sgn = [] \<or> sgn = [0x2B] \<or> sgn = [0x2D]) \<and> isDigit d)"
  shows "findPhotoFeature w =
      (Done, w\<lparr>inputs := rest,
               trace := trace w @ [Ask (js ''Photo ID? ''), Print (js ''Invalid ID'')]\<rparr>) \<and>
    tagPhotoFeature w =
      (Done, w\<lparr>inputs := rest,
               trace := trace w @ [Ask (js ''What photo ID to tag? ''),
                                   Print (js ''Invalid ID'')]\<rparr>)"
proof -
  have "parseInt idInput = NaN"
    using assms(2) parseInt_NaN_iff [of idInput] by blast
  then show ?thesis
    using assms(1)
    by (simp add: findPhotoFeature_def tagPhotoFeature_def prompt_Cons console_log_def)
qed

text \<open>The answer \<^verbatim>\<open>abc\<close>, with another answer waiting behind it.\<close>

theorem invalid_id_no_io_witness:
  "findPhotoFeature
     \<lparr>photosFile = Inr [], albumsFile = Inr [], writeError = None, localeDate = (\<lambda>t. []),
      toLowerCase = latin1LowerCase, inputs = [js ''abc'', js ''5''], trace = []\<rparr> =
   (Done, \<lparr>photosFile = Inr [], albumsFile = Inr [], writeError = None,
      localeDate = (\<lambda>t. []), toLowerCase = latin1LowerCase,
      inputs = [js ''5''], trace = [Ask (js ''Photo ID? ''), Print (js ''Invalid ID'')]\<rparr>) \<and>
   tagPhotoFeature
     \<lparr>photosFile = Inr [], albumsFile = Inr [], writeError = None, localeDate = (\<lambda>t. []),
      toLowerCase = latin1LowerCase, inputs = [js ''abc'', js ''5''], trace = []\<rparr> =
   (Done, \<lparr>photosFile = Inr [], albumsFile = Inr [], writeError = None,
      localeDate = (\<lambda>t. []), toLowerCase = latin1LowerCase,
      inputs = [js ''5''],
      trace = [Ask (js ''What photo ID to tag? ''), Print (js ''Invalid ID'')]\<rparr>)"
proof -
  have p: "parseInt (js ''abc'') = NaN" by code_simp
  have h: "\<not> (\<exists>ws sgn d tl. js ''abc'' = ws @ sgn @ d # tl \<and>
        (\<forall>c\<in>set ws. isWhiteSpace c) \<and>
        (sgn = [] \<or> sgn = [0x2B] \<or> sgn = [0x2D]) \<and> isDigit d)"
    using p parseInt_NaN_iff [of "js ''abc''"] by blast
  show ?thesis
    using invalid_id_no_io [of _ "js ''abc''" "[js ''5'']",
      where w = "\<lparr>photosFile = Inr [], albumsFile = Inr [], writeError = None,
        localeDate = (\<lambda>t. []), toLowerCase = latin1LowerCase,
        inputs = [js ''abc'', js ''5''], trace = []\<rparr>", OF _ h]
    by simp
qed

text \<open>
  An identifier after a no-break space is read as the number: Find Photo goes on to
  load the documents.
\<close>

lemma parseInt_no_break_space: "parseInt (0xA0 # js ''7'') = Num 7"
  by code_simp

subsection \<open>Album lookup\<close>

text \<open>
  C2, as stated: the album is found when its stored name and the requested name are
  equal after trimming and lowercasing both. The stored name \<^verbatim>\<open>" summer "\<close> and the
  request \<^verbatim>\<open>"summer"\<close> are equal in that sense, and the lookup finds nothing: the
  program trims the request only.
\<close>

theorem album_lookup_untrimmed_counterexample:
  "latin1LowerCase (trim (js '' summer '')) = latin1LowerCase (trim (js ''summer'')) \<and>
   albumLoop latin1LowerCase
     [Obj \<lparr>album_id = Some 1, album_name = Some (js '' summer '')\<rparr>] (js ''summer'') =
   Inr None"
proof -
  have "latin1LowerCase (trim (js '' summer '')) = latin1LowerCase (trim (js ''summer''))"
    by code_simp
  moreover have "latin1LowerCase (js '' summer '') \<noteq> latin1LowerCase (trim (js ''summer''))"
    by code_simp
  ultimately show ?thesis by (simp add: nameMatches_def)
qed

text \<open>
  C2, amended: on a list of album objects the lookup returns the first album whose
  stored name is not empty and, lowercased as it is stored, equals the requested name
  trimmed and lowercased; it returns an absent result when there is none. So the
  request \<^verbatim>\<open>" Summer "\<close> finds the stored \<^verbatim>\<open>"summer"\<close>, and \<^verbatim>\<open>"Summer2"\<close> does not.
\<close>

theorem album_lookup_first_match:
  "albumLoop lower (map Obj as) albumNameInput =
     Inr (find (\<lambda>a. case album_name a of
                      None \<Rightarrow> False
                    | Some nm \<Rightarrow> nm \<noteq> [] \<and> lower nm = lower (trim albumNameInput)) as) \<and>
   albumLoop latin1LowerCase [Obj \<lparr>album_id = i, album_name = Some (js ''summer'')\<rparr>]
       (js '' Summer '') =
     Inr (Some \<lparr>album_id = i, album_name = Some (js ''summer'')\<rparr>) \<and>
   albumLoop latin1LowerCase [Obj \<lparr>album_id = i, album_name = Some (js ''summer'')\<rparr>]
       (js ''Summer2'') = Inr None"
proof -
  have "albumLoop lower (map Obj as) albumNameInput =
     Inr (find (\<lambda>a. case album_name a of
                      None \<Rightarrow> False
                    | Some nm \<Rightarrow> nm \<noteq> [] \<and> lower nm = lower (trim albumNameInput)) as)"
    unfolding albumLoop_objs nameMatches_def ..
  moreover have "latin1LowerCase (js ''summer'') = latin1LowerCase (trim (js '' Summer ''))"
    by code_simp
  moreover have "latin1LowerCase (js ''summer'') \<noteq> latin1LowerCase (trim (js ''Summer2''))"
    by code_simp
  ultimately show ?thesis by (simp add: nameMatches_def)
qed

text \<open>
  Beyond ASCII: the request \<^verbatim>\<open>\u00e9t\u00e9\<close> finds the stored \<^verbatim>\<open>\u00c9T\u00c9\<close>, and a request
  that starts with a no-break space finds the stored \<^verbatim>\<open>summer\<close>.
\<close>

lemma album_lookup_beyond_ascii:
  "albumLoop latin1LowerCase [Obj \<lparr>album_id = i, album_name = Some [0xC9, 0x54, 0xC9]\<rparr>]
       [0xE9, 0x74, 0xE9] =
     Inr (Some \<lparr>album_id = i, album_name = Some [0xC9, 0x54, 0xC9]\<rparr>) \<and>
   albumLoop latin1LowerCase [Obj \<lparr>album_id = i, album_name = Some (js ''summer'')\<rparr>]
       (0xA0 # js ''summer'') =
     Inr (Some \<lparr>album_id = i, album_name = Some (js ''summer'')\<rparr>)"
proof -
  have "latin1LowerCase [0xC9, 0x54, 0xC9] = latin1LowerCase (trim [0xE9, 0x74, 0xE9])"
    by code_simp
  moreover have "latin1LowerCase (js ''summer'') = latin1LowerCase (trim (0xA0 # js ''summer''))"
    by code_simp
  ultimately show ?thesis by (simp add: nameMatches_def)
qed

subsection \<open>Album Photo List\<close>

text \<open>The joining loop puts the separator between consecutive elements only.\<close>

lemma joinLoop_concat:
  "joinLoop sep xs = (case xs of [] \<Rightarrow> [] | x # ys \<Rightarrow> x @ concat (map (\<lambda>y. sep @ y) ys))"
  by (induction sep xs rule: joinLoop.induct) simp_all

lemma listLoop_objs:
  "listLoop (map Obj ps) foundAlbum w =
     (Done, w\<lparr>trace := trace w @ map (\<lambda>p. Print (row p)) (filter (\<lambda>p. belongs p foundAlbum) ps)\<rparr>)"
  by (induction ps arbitrary: w) (simp_all add: console_log_def)

lemma belongs_iff:
  "belongs p foundAlbum \<longleftrightarrow> (\<exists>i\<in>set (orNil (albums p)). album_id foundAlbum = Some i)"
  unfolding belongs_def list_ex_iff by metis

text \<open>
  C4: when the album is found and the photo collection holds photo objects, the
  feature prints the header \<^verbatim>\<open>filename,resolution,tags\<close> and then, for the photos
  whose \<^verbatim>\<open>albums\<close> contain the id of the album, in the order of the collection, one
  line each: the filename, a comma, the resolution, a comma, and the tags with a colon
  between consecutive tags, which is nothing at all for a photo without tags.
\<close>

theorem album_listing_rows:
  assumes "inputs w = albumNameInput # rest"
    and "trim albumNameInput \<noteq> []"
    and "albumsFile w = Inr as"
    and "photosFile w = Inr (map Obj ps)"
    and "albumLoop (toLowerCase w) as albumNameInput = Inr (Some foundAlbum)"
  shows "albumPhotoListFeature w =
    (Done, w\<lparr>inputs := rest,
             trace := trace w @
               [Ask (js ''What is the name of the album? ''), ReadFile (js ''albums.json''),
                ReadFile (js ''photos.json''), Print (js ''filename,resolution,tags'')] @
               map (\<lambda>p. Print (orUndefined (filename p) @ js '','' @
                               formatResolution (resolution p) @ js '','' @
                               (case orNil (tags p) of
                                  [] \<Rightarrow> []
                                | t # ts \<Rightarrow> t @ concat (map (\<lambda>u. js '':'' @ u) ts))))
                 (filter (\<lambda>p. \<exists>i\<in>set (orNil (albums p)). album_id foundAlbum = Some i) ps)\<rparr>)"
proof -
  have r: "row = (\<lambda>p. orUndefined (filename p) @ js '','' @
                               formatResolution (resolution p) @ js '','' @
                               (case orNil (tags p) of
                                  [] \<Rightarrow> []
                                | t # ts \<Rightarrow> t @ concat (map (\<lambda>u. js '':'' @ u) ts)))"
    by (simp add: fun_eq_iff row_def joinLoop_concat)
  have b: "(\<lambda>p. belongs p foundAlbum) =
      (\<lambda>p. \<exists>i\<in>set (orNil (albums p)). album_id foundAlbum = Some i)"
    by (simp add: fun_eq_iff belongs_iff)
  show ?thesis
    using assms
    by (simp add: albumPhotoListFeature_def prompt_Cons readJson_Inr listLoop_objs
        PHOTOS_FILE_def ALBUMS_FILE_def console_log_def r b)
qed

text \<open>
  Three photos, the first and the third in the album; the first has no tags and its
  line ends with the comma.
\<close>

theorem album_listing_rows_witness:
  "albumPhotoListFeature
     \<lparr>photosFile = Inr (map Obj
        [\<lparr>photo_id = Some (JNum 1), filename = Some (js ''a.jpg''), title = None,
           description = None, date = None, resolution = Some (ResArray [800, 600]),
           albums = Some [10], tags = None, other = []\<rparr>,
         \<lparr>photo_id = Some (JNum 2), filename = Some (js ''b.jpg''), title = None,
           description = None, date = None, resolution = None,
           albums = Some [11], tags = Some [js ''z''], other = []\<rparr>,
         \<lparr>photo_id = Some (JNum 3), filename = Some (js ''c.jpg''), title = None,
           description = None, date = None, resolution = Some (ResText (js ''4x3'')),
           albums = Some [11, 10], tags = Some [js ''x'', js ''y''], other = []\<rparr>]),
      albumsFile = Inr [Obj \<lparr>album_id = Some 10, album_name = Some (js ''Trip'')\<rparr>],
      writeError = None, localeDate = (\<lambda>t. []), toLowerCase = latin1LowerCase,
      inputs = [js ''trip''], trace = []\<rparr> =
   (Done,
     \<lparr>photosFile = Inr (map Obj
        [\<lparr>photo_id = Some (JNum 1), filename = Some (js ''a.jpg''), title = None,
           description = None, date = None, resolution = Some (ResArray [800, 600]),
           albums = Some [10], tags = None, other = []\<rparr>,
         \<lparr>photo_id = Some (JNum 2), filename = Some (js ''b.jpg''), title = None,
           description = None, date = None, resolution = None,
           albums = Some [11], tags = Some [js ''z''], other = []\<rparr>,
         \<lparr>photo_id = Some (JNum 3), filename = Some (js ''c.jpg''), title = None,
           description = None, date = None, resolution = Some (ResText (js ''4x3'')),
           albums = Some [11, 10], tags = Some [js ''x'', js ''y''], other = []\<rparr>]),
      albumsFile = Inr [Obj \<lparr>album_id = Some 10, album_name = Some (js ''Trip'')\<rparr>],
      writeError = None, localeDate = (\<lambda>t. []), toLowerCase = latin1LowerCase,
      inputs = [],
      trace = [Ask (js ''What is the name of the album? ''), ReadFile (js ''albums.json''),
               ReadFile (js ''photos.json''), Print (js ''filename,resolution,tags''),
               Print (js ''a.jpg,800x600,''), Print (js ''c.jpg,4x3,x:y'')]\<rparr>)"
proof -
  have t: "trim (js ''trip'') = js ''trip''" by code_simp
  have l: "latin1LowerCase (js ''Trip'') = latin1LowerCase (js ''trip'')" by code_simp
  have n: "showInt 800 = js ''800''" "showInt 600 = js ''600''" by code_simp+
  have a: "albumLoop latin1LowerCase
        [Obj \<lparr>album_id = Some 10, album_name = Some (js ''Trip'')\<rparr>] (js ''trip'') =
      Inr (Some \<lparr>album_id = Some 10, album_name = Some (js ''Trip'')\<rparr>)"
    by (simp add: nameMatches_def t l)
  have r: "js ''a.jpg'' @ js '','' @ (js ''800'' @ js ''x'' @ js ''600'') @ js '','' =
      js ''a.jpg,800x600,''"
    "js ''c.jpg'' @ js '','' @ js ''4x3'' @ js '','' @ js ''x'' @ js '':'' @ js ''y'' =
      js ''c.jpg,4x3,x:y''"
    by (simp_all add: js_def)
  show ?thesis
    using album_listing_rows [of _ "js ''trip''" "[]"
        "[Obj \<lparr>album_id = Some 10, album_name = Some (js ''Trip'')\<rparr>]" _
        "\<lparr>album_id = Some 10, album_name = Some (js ''Trip'')\<rparr>",
      where w = "\<lparr>photosFile = Inr (map Obj
        [\<lparr>photo_id = Some (JNum 1), filename = Some (js ''a.jpg''), title = None,
           description = None, date = None, resolution = Some (ResArray [800, 600]),
           albums = Some [10], tags = None, other = []\<rparr>,
         \<lparr>photo_id = Some (JNum 2), filename = Some (js ''b.jpg''), title = None,
           description = None, date = None, resolution = None,
           albums = Some [11], tags = Some [js ''z''], other = []\<rparr>,
         \<lparr>photo_id = Some (JNum 3), filename = Some (js ''c.jpg''), title = None,
           description = None, date = None, resolution = Some (ResText (js ''4x3'')),
           albums = Some [11, 10], tags = Some [js ''x'', js ''y''], other = []\<rparr>]),
      albumsFile = Inr [Obj \<lparr>album_id = Some 10, album_name = Some (js ''Trip'')\<rparr>],
      writeError = None, localeDate = (\<lambda>t. []), toLowerCase = latin1LowerCase,
      inputs = [js ''trip''], trace = []\<rparr>"
      and ps = "[\<lparr>photo_id = Some (JNum 1), filename = Some (js ''a.jpg''), title = None,
           description = None, date = None, resolution = Some (ResArray [800, 600]),
           albums = Some [10], tags = None, other = []\<rparr>,
         \<lparr>photo_id = Some (JNum 2), filename = Some (js ''b.jpg''), title = None,
           description = None, date = None, resolution = None,
           albums = Some [11], tags = Some [js ''z''], other = []\<rparr>,
         \<lparr>photo_id = Some (JNum 3), filename = Some (js ''c.jpg''), title = None,
           description = None, date = None, resolution = Some (ResText (js ''4x3'')),
           albums = Some [11, 10], tags = Some [js ''x'', js ''y''], other = []\<rparr>]"] t a n r
    by (simp add: orNil_def orUndefined_def formatResolution_def stringAt_def)
qed

subsection \<open>Errors in the menu loop\<close>

text \<open>Only the \<^verbatim>\<open>catch\<close> of \<^verbatim>\<open>main\<close> reports an error: the loop never does.\<close>

lemma reported_append: "reported (xs @ ys) = reported xs @ reported ys"
  by (induction xs rule: reported.induct) simp_all

lemma reported_console_log [simp]: "reported (trace (console_log s w)) = reported (trace w)"
  by (simp add: console_log_def reported_append)



lemma reported_writeJson [simp]: "reported (trace (writeJson f d w)) = reported (trace w)"
  by (simp add: writeJson_def Let_def console_log_def reported_append split: option.splits)







lemma reported_menu [simp]: "reported (trace (menu w)) = reported (trace w)"
  by (simp add: menu_def)


text \<open>An error raised by the selected feature leaves the loop at once.\<close>

lemma main_loop_raise:
  assumes "prompt (js ''Your selection> '') (menu w) = (Some line, w1)"
    and "trim line = js ''1'' \<and> findPhotoFeature w1 = (Threw e, w2) \<or>
         trim line = js ''2'' \<and> updatePhotoDetailsFeature w1 = (Threw e, w2) \<or>
         trim line = js ''3'' \<and> albumPhotoListFeature w1 = (Threw e, w2) \<or>
         trim line = js ''4'' \<and> tagPhotoFeature w1 = (Threw e, w2)"
  shows "main_loop w = (Threw e, w2)"
  using assms by (subst main_loop.simps) auto




end
